theory Spec2Isabelle
  imports Main "HOL-Library.Word"
begin

section \<open>The chat component (ChatUI) as a state machine\<close>

text \<open>
  The component keeps its state in React \<open>useState\<close> cells and changes it only in
  event callbacks: a click or key press, the completion of a \<open>fetch\<close>, a timer tick.
  JavaScript runs each callback to completion, so a callback is one atomic step of the
  model, and an \<open>async\<close> function is one step per synchronous segment: the part up to
  its \<open>await\<close>, and the part that runs once the awaited request has settled. What the
  network answers is an argument of the second step.
\<close>

subsection \<open>Strings\<close>

text \<open>
  A JavaScript string is a sequence of UTF-16 code units. \<open>js\<close> writes an ASCII
  literal of the source as such a sequence.
\<close>

type_synonym jschar = "16 word"
type_synonym jsstring = "jschar list"

definition js :: "string \<Rightarrow> jsstring" where
  "js cs = map (\<lambda>c. of_nat (of_char c)) cs"

text \<open>
  \<open>String.prototype.trim\<close> removes white space and line terminators from both ends:
  TAB, LF, VT, FF, CR, SP, NBSP, the code points of category Zs, LS, PS and the BOM.
\<close>

definition is_ws :: "jschar \<Rightarrow> bool" where
  "is_ws c \<longleftrightarrow>
     c \<in> {0x09, 0x0A, 0x0B, 0x0C, 0x0D, 0x20, 0xA0, 0x1680,
          0x2028, 0x2029, 0x202F, 0x205F, 0x3000, 0xFEFF}
     \<or> (0x2000 \<le> c \<and> c \<le> 0x200A)"

definition trim :: "jsstring \<Rightarrow> jsstring" where
  "trim s = rev (dropWhile is_ws (rev (dropWhile is_ws s)))"

text \<open>
  \<open>fullText.split(' ')\<close>: the pieces between the occurrences of one space. The
  scanner carries the piece read so far; the empty string gives one empty piece.
\<close>

fun split_from :: "jsstring \<Rightarrow> jsstring \<Rightarrow> jsstring list" where
  "split_from w [] = [w]"
| "split_from w (c # cs) =
     (if c = 0x20 then w # split_from [] cs else split_from (w @ [c]) cs)"

definition split_sp :: "jsstring \<Rightarrow> jsstring list" where
  "split_sp s = split_from [] s"

text \<open>
  The pieces joined again with single spaces, what \<open>currentText\<close> holds once every
  piece has been appended (used in the statements below, not by the component).
\<close>

fun join_sp :: "jsstring list \<Rightarrow> jsstring" where
  "join_sp [] = []"
| "join_sp [w] = w"
| "join_sp (w # v # ws) = w @ 0x20 # join_sp (v # ws)"

text \<open>
  A value is falsy in a condition such as \<open>!sessionId\<close> when it is \<open>null\<close> or the
  empty string.
\<close>

fun falsy :: "jsstring option \<Rightarrow> bool" where
  "falsy None = True"
| "falsy (Some v) = (v = [])"

subsection \<open>Messages\<close>

datatype sender = User | Bot

record source =
  title :: jsstring
  source_name :: jsstring
  url :: jsstring

text \<open>
  A message object. The flags \<open>isStreaming\<close>, \<open>isError\<close> and \<open>isWelcome\<close> are
  absent or \<open>true\<close> when the object is built and only ever tested for truth, so an
  absent flag is \<open>False\<close>. \<open>sources\<close> is \<open>None\<close> where the property is absent or
  \<open>undefined\<close>. Identifiers and timestamps are clock readings in milliseconds; the
  clock reads of one callback are one reading \<open>now\<close>.
\<close>

record message =
  mid :: nat
  msg_text :: jsstring
  sender :: sender
  timestamp :: nat
  sources :: "source list option"
  isStreaming :: bool
  isError :: bool
  isWelcome :: bool

definition bot_message :: "nat \<Rightarrow> jsstring \<Rightarrow> message" where
  "bot_message now t =
     \<lparr>mid = now, msg_text = t, sender = Bot, timestamp = now, sources = None,
      isStreaming = False, isError = False, isWelcome = False\<rparr>"

definition userMessage :: "nat \<Rightarrow> jsstring \<Rightarrow> message" where
  "userMessage now t = (bot_message now t)\<lparr>sender := User\<rparr>"

definition typingMessage :: "nat \<Rightarrow> message" where
  "typingMessage now = (bot_message (now + 1) [])\<lparr>timestamp := now, isStreaming := True\<rparr>"

definition streamingMessage :: "nat \<Rightarrow> source list option \<Rightarrow> message" where
  "streamingMessage now srcs = (bot_message now [])\<lparr>isStreaming := True, sources := srcs\<rparr>"

definition welcomeMessage :: "nat \<Rightarrow> message" where
  "welcomeMessage now =
     (bot_message now (js (''Hello! I'm Siri's News Assistant. I can help you find the ''
        @ ''latest news and answer questions about current events. ''
        @ ''What would you like to know?'')))\<lparr>isWelcome := True\<rparr>"

definition resetMessage :: "nat \<Rightarrow> message" where
  "resetMessage now =
     (bot_message now (js (''Session reset! I'm ready to help you with fresh news and ''
        @ ''information. What would you like to know?'')))\<lparr>isWelcome := True\<rparr>"

definition unableMessage :: "nat \<Rightarrow> message" where
  "unableMessage now =
     (bot_message now (js (''I'm unable to connect to the chat service. Please make sure ''
        @ ''the backend server is running and refresh the page to try again.'')))
       \<lparr>isError := True\<rparr>"

text \<open>A rejected request is an \<open>AbortError\<close> (the timeout fired) or any other error.\<close>

datatype failure = AbortError | OtherError

definition sendErrorMessage :: "nat \<Rightarrow> failure \<Rightarrow> message" where
  "sendErrorMessage now e =
     (bot_message now
        (if e = AbortError
         then js ''Request timed out. Please try again or check if the backend is responding.''
         else js (''I'm so'' @ ''rry, I encountered an error processing your request. ''
                  @ ''Please try again later.'')))\<lparr>isError := True\<rparr>"

subsection \<open>Component state\<close>

text \<open>The closure of one \<open>setInterval\<close> callback of \<open>simulateStreamingResponse\<close>.\<close>

record reveal =
  words :: "jsstring list"
  currentText :: jsstring
  wordIndex :: nat

text \<open>
  The \<open>useState\<close> cells, and with them what the callbacks share with the browser:
  the session key of \<open>localStorage\<close>, the interval timers of the reveal (a timer's
  identifier is its position; \<open>clearInterval\<close> leaves \<open>None\<close>), the number of pending
  bootstrap retries (\<open>setTimeout\<close>), the chat requests awaiting an answer, each
  with the session identifier of its URL and the message of its body, and the number
  of delete requests of a reset awaiting an answer.
\<close>

record chat_state =
  sessionId :: "jsstring option"
  isConnected :: bool
  messages :: "message list"
  inputValue :: jsstring
  isDarkTheme :: bool
  isLoading :: bool
  isInitializing :: bool
  isFirstLoad :: bool
  error :: "jsstring option"
  storedSessionId :: "jsstring option"
  streamIntervals :: "reveal option list"
  retryTimeouts :: nat
  chatRequests :: "(jsstring option \<times> jsstring) list"
  resetRequests :: nat

definition initial_state :: "jsstring option \<Rightarrow> chat_state" where
  "initial_state saved =
     \<lparr>sessionId = None, isConnected = False, messages = [], inputValue = [],
      isDarkTheme = False, isLoading = False, isInitializing = True, isFirstLoad = True,
      error = None, storedSessionId = saved, streamIntervals = [], retryTimeouts = 0,
      chatRequests = [], resetRequests = 0\<rparr>"

subsection \<open>Reveal engine: \<open>simulateStreamingResponse\<close>\<close>

text \<open>
  The two updaters of the interval callback look at the last message and change it when
  it is a streaming bot message.
\<close>

definition set_last_text :: "jsstring \<Rightarrow> message list \<Rightarrow> message list" where
  "set_last_text t ms =
     (if ms \<noteq> [] \<and> sender (last ms) = Bot \<and> isStreaming (last ms)
      then butlast ms @ [(last ms)\<lparr>msg_text := t\<rparr>] else ms)"

definition end_last_streaming :: "message list \<Rightarrow> message list" where
  "end_last_streaming ms =
     (if ms \<noteq> [] \<and> sender (last ms) = Bot \<and> isStreaming (last ms)
      then butlast ms @ [(last ms)\<lparr>isStreaming := False\<rparr>] else ms)"

text \<open>The first statement: \<open>prev.slice(0, -1)\<close> and the new streaming message.\<close>

definition replace_tail :: "nat \<Rightarrow> source list option \<Rightarrow> chat_state \<Rightarrow> chat_state" where
  "replace_tail now srcs s =
     s\<lparr>messages := butlast (messages s) @ [streamingMessage now srcs]\<rparr>"

definition simulateStreamingResponse ::
  "nat \<Rightarrow> jsstring \<Rightarrow> source list option \<Rightarrow> chat_state \<Rightarrow> chat_state" where
  "simulateStreamingResponse now fullText srcs s =
     (let s1 = replace_tail now srcs s
      in s1\<lparr>streamIntervals := streamIntervals s1
               @ [Some \<lparr>words = split_sp fullText, currentText = [], wordIndex = 0\<rparr>]\<rparr>)"

text \<open>One run of the callback of timer \<open>i\<close>; a cleared timer does not fire.\<close>

definition streamInterval_tick :: "nat \<Rightarrow> chat_state \<Rightarrow> chat_state" where
  "streamInterval_tick i s =
     (if i < length (streamIntervals s) then
        (case streamIntervals s ! i of
           None \<Rightarrow> s
         | Some r \<Rightarrow>
             if wordIndex r < length (words r) then
               (let cur = currentText r @ (if wordIndex r > 0 then [0x20] else [])
                            @ words r ! wordIndex r
                in s\<lparr>messages := set_last_text cur (messages s),
                     streamIntervals := (streamIntervals s)
                       [i := Some (r\<lparr>currentText := cur, wordIndex := wordIndex r + 1\<rparr>)]\<rparr>)
             else
               s\<lparr>messages := end_last_streaming (messages s),
                 streamIntervals := (streamIntervals s)[i := None]\<rparr>)
      else s)"

definition reveal_run :: "nat \<Rightarrow> nat \<Rightarrow> chat_state \<Rightarrow> chat_state" where
  "reveal_run i k s = (streamInterval_tick i ^^ k) s"

text \<open>\<open>reveal_run i k\<close> is \<open>k\<close> successive ticks of timer \<open>i\<close>.\<close>

subsection \<open>Message dispatcher: \<open>handleSendMessage\<close>\<close>

text \<open>
  What the chat request comes to: a 2xx answer whose body carries \<open>response\<close> (a
  string, or \<open>None\<close> when it is absent) and \<open>sources\<close>; an answer that is not 2xx;
  or a rejection, by the 30 s timeout (\<open>AbortError\<close>) or otherwise (the network, a
  body that is not JSON).
\<close>

datatype chat_result =
  ChatResponse "jsstring option" "source list option"
| ChatNotOk
| ChatRejected failure

text \<open>
  The handler up to \<open>await fetch\<close>. It belongs to the latest render, so the state it
  tests is the current one.
\<close>

definition handleSendMessage :: "nat \<Rightarrow> chat_state \<Rightarrow> chat_state" where
  "handleSendMessage now s =
     (if trim (inputValue s) = [] \<or> isLoading s \<or> falsy (sessionId s) \<or> \<not> isConnected s
      then s
      else s\<lparr>messages := messages s @ [userMessage now (trim (inputValue s))]
                 @ [typingMessage now],
             inputValue := [],
             isLoading := True,
             error := None,
             chatRequests := chatRequests s @ [(sessionId s, trim (inputValue s))]\<rparr>)"

text \<open>The \<open>catch\<close> block.\<close>

definition send_failed :: "nat \<Rightarrow> failure \<Rightarrow> chat_state \<Rightarrow> chat_state" where
  "send_failed now e s =
     s\<lparr>isConnected := False,
       messages := filter (\<lambda>m. \<not> isStreaming m) (messages s) @ [sendErrorMessage now e]\<rparr>"

text \<open>
  The handler from the settled request on, \<open>finally\<close> included. With no \<open>response\<close>
  in the body, \<open>fullText.split\<close> throws a \<open>TypeError\<close> after the first statement of
  \<open>simulateStreamingResponse\<close> has run, and the \<open>catch\<close> block takes over.
\<close>

definition handleSendMessage_settled ::
  "nat \<Rightarrow> chat_result \<Rightarrow> chat_state \<Rightarrow> chat_state" where
  "handleSendMessage_settled now r s =
     (case r of
        ChatResponse (Some fullText) srcs \<Rightarrow>
          simulateStreamingResponse now fullText srcs (s\<lparr>isConnected := True\<rparr>)
      | ChatResponse None srcs \<Rightarrow>
          send_failed now OtherError (replace_tail now srcs (s\<lparr>isConnected := True\<rparr>))
      | ChatNotOk \<Rightarrow> send_failed now OtherError s
      | ChatRejected e \<Rightarrow> send_failed now e s)\<lparr>isLoading := False\<rparr>"

subsection \<open>Session reset: \<open>handleResetSession\<close>\<close>

datatype reset_result = ResetOk | ResetNotOk | ResetRejected failure

text \<open>The handler up to \<open>await fetch\<close>, and from the settled request on.\<close>

definition handleResetSession :: "chat_state \<Rightarrow> chat_state" where
  "handleResetSession s =
     (if falsy (sessionId s) \<or> \<not> isConnected s then s
      else s\<lparr>isLoading := True, resetRequests := resetRequests s + 1\<rparr>)"

definition reset_failed :: "failure \<Rightarrow> chat_state \<Rightarrow> chat_state" where
  "reset_failed e s =
     s\<lparr>isConnected := False,
       error := Some (if e = AbortError then js ''Reset request timed out.''
                      else js ''Failed to reset session.'')\<rparr>"

definition handleResetSession_settled ::
  "nat \<Rightarrow> reset_result \<Rightarrow> chat_state \<Rightarrow> chat_state" where
  "handleResetSession_settled now r s =
     (case r of
        ResetOk \<Rightarrow> s\<lparr>messages := [resetMessage now], error := None\<rparr>
      | ResetNotOk \<Rightarrow> reset_failed OtherError s
      | ResetRejected e \<Rightarrow> reset_failed e s)\<lparr>isLoading := False\<rparr>"

subsection \<open>Connectivity monitor: \<open>checkConnection\<close>\<close>

datatype probe_result = ProbeOk | ProbeNotOk | ProbeRejected

text \<open>
  \<open>checkConnection\<close> tests the \<open>isConnected\<close> of the render whose effect created it,
  the argument \<open>connected\<close>. The effect runs again whenever \<open>sessionId\<close> or
  \<open>isConnected\<close> changes, so a poll starts with the current value: \<open>monitor_poll\<close>.
\<close>

definition checkConnection :: "bool \<Rightarrow> probe_result \<Rightarrow> chat_state \<Rightarrow> chat_state" where
  "checkConnection connected r s =
     (case r of
        ProbeOk \<Rightarrow>
          if \<not> connected then s\<lparr>isConnected := True, error := None\<rparr> else s
      | ProbeNotOk \<Rightarrow>
          s\<lparr>isConnected := False, error := Some (js ''Backend service returned an error'')\<rparr>
      | ProbeRejected \<Rightarrow>
          if connected
          then s\<lparr>isConnected := False, error := Some (js ''Cannot reach backend service'')\<rparr>
          else s)"

definition monitor_poll :: "probe_result \<Rightarrow> chat_state \<Rightarrow> chat_state" where
  "monitor_poll r s =
     (if falsy (sessionId s) then s else checkConnection (isConnected s) r s)"

subsection \<open>Session manager: \<open>initializeSession\<close>\<close>

text \<open>
  The answers of the backend to one bootstrap: the health probe, the creation of a
  session (asked only when no identifier is stored; \<open>None\<close> is a body without
  \<open>sessionId\<close>), and the list that \<open>loadChatHistory\<close> returns, which is empty
  whenever that call fails. While a bootstrap runs the component shows its loading
  screen, so the whole function is one step.
\<close>

datatype health_result = HealthOk | HealthNotOk | HealthRejected failure

datatype create_result = CreateOk "jsstring option" | CreateNotOk | CreateRejected failure

record boot_answers =
  health :: health_result
  created :: create_result
  history :: "message list"

text \<open>\<open>localStorage.setItem\<close> stores the string form of its argument.\<close>

fun stored_form :: "jsstring option \<Rightarrow> jsstring" where
  "stored_form None = js ''undefined''"
| "stored_form (Some v) = v"

text \<open>The \<open>try\<close> block from \<open>setSessionId\<close> on, where nothing throws any more.\<close>

definition session_ready ::
  "nat \<Rightarrow> message list \<Rightarrow> jsstring option \<Rightarrow> chat_state \<Rightarrow> chat_state" where
  "session_ready now historyMessages currentSessionId s =
     s\<lparr>sessionId := currentSessionId,
       isConnected := True,
       isFirstLoad := False,
       messages := (if length historyMessages > 0 then historyMessages
                    else [welcomeMessage now])\<rparr>"

text \<open>The \<open>try\<close> block after its first three statements: \<open>Inl\<close> is what it throws.\<close>

definition try_initialize ::
  "nat \<Rightarrow> boot_answers \<Rightarrow> chat_state \<Rightarrow> failure + chat_state" where
  "try_initialize now a s =
     (case health a of
        HealthRejected e \<Rightarrow> Inl e
      | HealthNotOk \<Rightarrow> Inl OtherError
      | HealthOk \<Rightarrow>
          if falsy (storedSessionId s) then
            (case created a of
               CreateRejected e \<Rightarrow> Inl e
             | CreateNotOk \<Rightarrow> Inl OtherError
             | CreateOk sid \<Rightarrow>
                 Inr (session_ready now (history a) sid
                        (s\<lparr>storedSessionId := Some (stored_form sid)\<rparr>)))
          else Inr (session_ready now (history a) (storedSessionId s) s))"

text \<open>
  \<open>initializeSession\<close> is called by the mount effect and by its own retry, so the
  \<open>isFirstLoad\<close> it tests is that of the first render, \<open>true\<close>. The cell holds the
  same value at each of these calls, since only a bootstrap that succeeded has
  cleared it, and none is started after that; the model reads the cell.
\<close>

definition initializeSession :: "nat \<Rightarrow> boot_answers \<Rightarrow> chat_state \<Rightarrow> chat_state" where
  "initializeSession now a s =
     (let s1 = s\<lparr>isInitializing := True, error := None, isConnected := False\<rparr>
      in (case try_initialize now a s1 of
            Inr s2 \<Rightarrow> s2
          | Inl e \<Rightarrow>
              if isFirstLoad s \<and> e = AbortError then
                s1\<lparr>isConnected := False,
                   error := Some (js ''Backend is starting up (free tier). Retrying in 5 seconds...''),
                   retryTimeouts := retryTimeouts s1 + 1\<rparr>
              else
                s1\<lparr>isConnected := False,
                   storedSessionId := None,
                   sessionId := None,
                   messages := [unableMessage now],
                   error := Some
                     (if e = AbortError
                      then js (''Connection timed out. The backend may be starting up on free ''
                               @ ''tier (takes 30-60s). Please wait and refresh.'')
                      else js ''Failed to connect to chat service.'')\<rparr>)
         \<lparr>isInitializing := False\<rparr>)"

text \<open>The callback of the retry's \<open>setTimeout\<close>, five seconds later.\<close>

definition retry_fires :: "nat \<Rightarrow> boot_answers \<Rightarrow> chat_state \<Rightarrow> chat_state" where
  "retry_fires now a s =
     (if retryTimeouts s = 0 then s
      else initializeSession now a (s\<lparr>retryTimeouts := retryTimeouts s - 1, error := None\<rparr>))"


subsection \<open>Callbacks of the component\<close>

text \<open>
  What happens once the bootstrap has succeeded: the user types into the textarea
  (disabled while loading or disconnected, at most 1000 code units), sends, presses
  the reset button (disabled while loading or disconnected) or dismisses the error; the
  oldest chat request or a delete request settles; a reveal timer ticks; a health probe
  of the monitor settles, in a closure that has captured \<open>connected\<close>.
\<close>

datatype event =
  Type_input jsstring
| Send nat
| Settle nat chat_result
| Tick nat
| Reset_click
| Reset_settle nat reset_result
| Probe bool probe_result
| Dismiss_error

fun fire :: "event \<Rightarrow> chat_state \<Rightarrow> chat_state" where
  "fire (Type_input v) s =
     (if isLoading s \<or> \<not> isConnected s \<or> length v > 1000 then s else s\<lparr>inputValue := v\<rparr>)"
| "fire (Send now) s = handleSendMessage now s"
| "fire (Settle now r) s =
     (case chatRequests s of
        [] \<Rightarrow> s
      | q # qs \<Rightarrow> handleSendMessage_settled now r (s\<lparr>chatRequests := qs\<rparr>))"
| "fire (Tick i) s = streamInterval_tick i s"
| "fire Reset_click s =
     (if isLoading s \<or> \<not> isConnected s then s else handleResetSession s)"
| "fire (Reset_settle now r) s =
     (if resetRequests s = 0 then s
      else handleResetSession_settled now r (s\<lparr>resetRequests := resetRequests s - 1\<rparr>))"
| "fire (Probe connected r) s = checkConnection connected r s"
| "fire Dismiss_error s = s\<lparr>error := None\<rparr>"

fun run :: "chat_state \<Rightarrow> event list \<Rightarrow> chat_state" where
  "run s [] = s"
| "run s (e # es) = run (fire e s) es"

subsection \<open>Names used in the statements\<close>

text \<open>The standing error that a failed reset sets.\<close>

definition reset_error :: "reset_result \<Rightarrow> jsstring" where
  "reset_error r =
     (if r = ResetRejected AbortError then js ''Reset request timed out.''
      else js ''Failed to reset session.'')"

text \<open>
  The component after a first bootstrap that succeeded with nothing stored and no
  history: a session, a live connection, the welcome message.
\<close>

definition ready_state :: chat_state where
  "ready_state =
     initializeSession 1000
       \<lparr>health = HealthOk, created = CreateOk (Some (js ''s1'')), history = []\<rparr>
       (initial_state None)"

text \<open>A backend whose health probe runs into the timeout.\<close>

definition cold_answers :: boot_answers where
  "cold_answers = \<lparr>health = HealthRejected AbortError, created = CreateNotOk, history = []\<rparr>"

text \<open>
  The bootstrap fails with \<open>e\<close>: the health probe is rejected or not 2xx, or, with no
  identifier stored, the creation of the session is.
\<close>

definition bootstrap_fails :: "boot_answers \<Rightarrow> jsstring option \<Rightarrow> failure \<Rightarrow> bool" where
  "bootstrap_fails a saved e \<longleftrightarrow>
     health a = HealthRejected e
     \<or> (health a = HealthNotOk \<and> e = OtherError)
     \<or> (health a = HealthOk \<and> falsy saved
         \<and> (created a = CreateRejected e \<or> (created a = CreateNotOk \<and> e = OtherError)))"

text \<open>The example state with \<open>" hi "\<close> typed into the input.\<close>

definition typed_state :: chat_state where
  "typed_state = fire (Type_input (js '' hi '')) ready_state"

text \<open>
  No reveal timer is set; no message of a transcript is streaming; and the component is
  quiet: no request in flight, no reveal timer set, no message streaming.
\<close>

definition no_timer_running :: "chat_state \<Rightarrow> bool" where
  "no_timer_running s \<longleftrightarrow> list_all (\<lambda>r. r = None) (streamIntervals s)"

definition none_streaming :: "message list \<Rightarrow> bool" where
  "none_streaming ms \<longleftrightarrow> filter isStreaming ms = []"

definition quiet :: "chat_state \<Rightarrow> bool" where
  "quiet s \<longleftrightarrow>
     chatRequests s = [] \<and> resetRequests s = 0 \<and> no_timer_running s
     \<and> none_streaming (messages s)"

text \<open>
  A sequence of callbacks in which every send is issued with no reveal timer set, the
  sequencing that the reveal engine expects.
\<close>

fun sends_after_reveals :: "chat_state \<Rightarrow> event list \<Rightarrow> bool" where
  "sends_after_reveals s [] = True"
| "sends_after_reveals s (Send now # es) =
     (no_timer_running s \<and> sends_after_reveals (fire (Send now) s) es)"
| "sends_after_reveals s (e # es) = sends_after_reveals (fire e s) es"

text \<open>
  What holds along such a sequence: only the tail may be streaming and only a bot
  message is; with no chat request in flight and no timer set nothing is streaming; a
  chat request in flight is the only one, with the busy flag set and no timer set; and
  a delete request in flight is the only request, with the busy flag set.
\<close>

definition dispatch_inv :: "chat_state \<Rightarrow> bool" where
  "dispatch_inv s \<longleftrightarrow>
     none_streaming (butlast (messages s))
     \<and> (\<forall>m \<in> set (messages s). isStreaming m \<longrightarrow> sender m = Bot)
     \<and> (chatRequests s = [] \<and> no_timer_running s \<longrightarrow> none_streaming (messages s))
     \<and> (chatRequests s \<noteq> [] \<longrightarrow>
          isLoading s \<and> no_timer_running s \<and> length (chatRequests s) = 1)
     \<and> resetRequests s \<le> 1
     \<and> (resetRequests s > 0 \<longrightarrow> isLoading s \<and> chatRequests s = [])"

text \<open>
  For an answer \<open>r\<close> to a chat request: the failure that the \<open>catch\<close> block sees,
  the one final bot message that the send ends with, and the number of ticks after which
  it stands in the transcript.
\<close>

definition failure_of :: "chat_result \<Rightarrow> failure" where
  "failure_of r = (case r of ChatRejected e \<Rightarrow> e | _ \<Rightarrow> OtherError)"

definition terminal_reply :: "nat \<Rightarrow> chat_result \<Rightarrow> message" where
  "terminal_reply now r =
     (case r of
        ChatResponse (Some fullText) srcs \<Rightarrow>
          (streamingMessage now srcs)\<lparr>msg_text := fullText, isStreaming := False\<rparr>
      | _ \<Rightarrow> sendErrorMessage now (failure_of r))"

definition ticks_needed :: "chat_result \<Rightarrow> nat" where
  "ticks_needed r =
     (case r of
        ChatResponse (Some fullText) srcs \<Rightarrow> Suc (length (split_sp fullText))
      | _ \<Rightarrow> 0)"

text \<open>
  Example runs. In \<open>empty_answer\<close> the typed message is sent and the answer carries
  the empty response. In \<open>overlapping_sends\<close> the user sends a second message while
  the reveal of the first answer is ticking, and \<open>overlapping_replies\<close> goes on until
  every timer is cleared. In \<open>orderly_sends\<close> the second message is sent after the
  reveal.
\<close>

definition empty_answer :: "event list" where
  "empty_answer = [Send 2000, Settle 2500 (ChatResponse (Some []) None)]"

definition first_reply_ticking :: "event list" where
  "first_reply_ticking =
     [Type_input (js ''hi''), Send 2000, Settle 2500 (ChatResponse (Some (js ''a b c'')) None),
      Tick 0, Type_input (js ''yo'')]"

definition overlapping_sends :: "event list" where
  "overlapping_sends = first_reply_ticking @ [Send 2700]"

definition overlapping_replies :: "event list" where
  "overlapping_replies =
     overlapping_sends @
     [Tick 0, Tick 0, Tick 0, Settle 3000 (ChatResponse (Some (js ''x'')) None), Tick 1, Tick 1]"

definition orderly_sends :: "event list" where
  "orderly_sends =
     [Type_input (js ''hi''), Send 2000, Settle 2500 (ChatResponse (Some (js ''a b'')) None),
      Tick 0, Tick 0, Tick 0, Type_input (js ''yo''), Send 2700]"

section \<open>Properties\<close>

subsection \<open>Strings\<close>

lemma js_Nil [simp]: "js [] = []"
  by (simp add: js_def)

lemma join_sp_snoc: "join_sp (ws @ [w]) = (if ws = [] then w else join_sp ws @ 0x20 # w)"
  by (induction ws rule: join_sp.induct) auto

lemma join_sp_take_Suc:
  "k < length ws \<Longrightarrow>
   join_sp (take (Suc k) ws) = join_sp (take k ws) @ (if k > 0 then [0x20] else []) @ ws ! k"
  by (auto simp: take_Suc_conv_app_nth join_sp_snoc)

lemma split_from_ne: "split_from w s \<noteq> []"
  by (induction s arbitrary: w) auto

lemma join_sp_Cons: "ws \<noteq> [] \<Longrightarrow> join_sp (w # ws) = w @ 0x20 # join_sp ws"
  by (cases ws) auto

lemma join_split_from: "join_sp (split_from w s) = w @ s"
  by (induction s arbitrary: w) (auto simp: join_sp_Cons split_from_ne)

subsection \<open>Reveal engine\<close>

lemma tick_word:
  "i < length (streamIntervals s) \<Longrightarrow> streamIntervals s ! i = Some r \<Longrightarrow>
   wordIndex r < length (words r) \<Longrightarrow>
   streamInterval_tick i s =
     s\<lparr>messages := set_last_text (currentText r @ (if wordIndex r > 0 then [0x20] else [])
                            @ words r ! wordIndex r) (messages s),
       streamIntervals := (streamIntervals s)
          [i := Some (r\<lparr>currentText := currentText r @ (if wordIndex r > 0 then [0x20] else [])
                            @ words r ! wordIndex r, wordIndex := wordIndex r + 1\<rparr>)]\<rparr>"
  by (simp add: streamInterval_tick_def Let_def)

lemma tick_end:
  "i < length (streamIntervals s) \<Longrightarrow> streamIntervals s ! i = Some r \<Longrightarrow>
   \<not> wordIndex r < length (words r) \<Longrightarrow>
   streamInterval_tick i s =
     s\<lparr>messages := end_last_streaming (messages s),
       streamIntervals := (streamIntervals s)[i := None]\<rparr>"
  by (simp add: streamInterval_tick_def)

lemma reveal_ticks:
  assumes i: "i < length (streamIntervals s)"
    and r: "streamIntervals s ! i = Some \<lparr>words = ws, currentText = [], wordIndex = 0\<rparr>"
    and m: "messages s = pre @ [m]" "sender m = Bot" "isStreaming m" "msg_text m = []"
    and k: "k \<le> length ws"
  shows "(streamInterval_tick i ^^ k) s =
     s\<lparr>messages := pre @ [m\<lparr>msg_text := join_sp (take k ws)\<rparr>],
       streamIntervals := (streamIntervals s)
          [i := Some \<lparr>words = ws, currentText = join_sp (take k ws), wordIndex = k\<rparr>]\<rparr>"
  using k
proof (induction k)
  case 0
  have "m\<lparr>msg_text := []\<rparr> = m" using m(4) by simp
  moreover have "(streamIntervals s)[i := Some \<lparr>words = ws, currentText = [], wordIndex = 0\<rparr>] = streamIntervals s"
    using r list_update_id by metis
  ultimately show ?case using m(1) by simp
next
  case (Suc k)
  let ?t = "s\<lparr>messages := pre @ [m\<lparr>msg_text := join_sp (take k ws)\<rparr>],
       streamIntervals := (streamIntervals s)
          [i := Some \<lparr>words = ws, currentText = join_sp (take k ws), wordIndex = k\<rparr>]\<rparr>"
  have t: "(streamInterval_tick i ^^ k) s = ?t" using Suc by simp
  have kl: "k < length ws" using Suc.prems by simp
  have "streamInterval_tick i ?t =
     s\<lparr>messages := pre @ [m\<lparr>msg_text := join_sp (take (Suc k) ws)\<rparr>],
       streamIntervals := (streamIntervals s)
          [i := Some \<lparr>words = ws, currentText = join_sp (take (Suc k) ws), wordIndex = Suc k\<rparr>]\<rparr>"
    using i kl m(2,3)
    by (subst tick_word[where r = "\<lparr>words = ws, currentText = join_sp (take k ws), wordIndex = k\<rparr>"])
       (simp_all add: set_last_text_def join_sp_take_Suc del: join_sp.simps take_Suc)
  then show ?case using t by simp
qed

lemma reveal_last_tick:
  assumes i: "i < length (streamIntervals s)"
    and r: "streamIntervals s ! i = Some \<lparr>words = ws, currentText = [], wordIndex = 0\<rparr>"
    and m: "messages s = pre @ [m]" "sender m = Bot" "isStreaming m" "msg_text m = []"
  shows "(streamInterval_tick i ^^ Suc (length ws)) s =
     s\<lparr>messages := pre @ [m\<lparr>msg_text := join_sp ws, isStreaming := False\<rparr>],
       streamIntervals := (streamIntervals s)[i := None]\<rparr>"
proof -
  let ?t = "s\<lparr>messages := pre @ [m\<lparr>msg_text := join_sp ws\<rparr>],
       streamIntervals := (streamIntervals s)
          [i := Some \<lparr>words = ws, currentText = join_sp ws, wordIndex = length ws\<rparr>]\<rparr>"
  have "(streamInterval_tick i ^^ length ws) s = ?t"
    using reveal_ticks[OF i r m, of "length ws"] by simp
  moreover have "streamInterval_tick i ?t =
     s\<lparr>messages := pre @ [m\<lparr>msg_text := join_sp ws, isStreaming := False\<rparr>],
       streamIntervals := (streamIntervals s)[i := None]\<rparr>"
    using i m(2,3)
    by (subst tick_end[where r = "\<lparr>words = ws, currentText = join_sp ws, wordIndex = length ws\<rparr>"])
       (simp_all add: end_last_streaming_def)
  ultimately show ?thesis by simp
qed

lemma simulate_shape:
  "simulateStreamingResponse now t srcs s =
     s\<lparr>messages := butlast (messages s) @ [streamingMessage now srcs],
       streamIntervals := streamIntervals s
          @ [Some \<lparr>words = split_sp t, currentText = [], wordIndex = 0\<rparr>]\<rparr>"
  by (simp add: simulateStreamingResponse_def replace_tail_def Let_def)

lemma streamingMessage_simps [simp]:
  "sender (streamingMessage now srcs) = Bot" "isStreaming (streamingMessage now srcs)"
  "msg_text (streamingMessage now srcs) = []" "sources (streamingMessage now srcs) = srcs"
  by (simp_all add: streamingMessage_def bot_message_def)


lemma simulate_ticks:
  "k \<le> length (split_sp t) \<Longrightarrow>
   reveal_run (length (streamIntervals s)) k (simulateStreamingResponse now t srcs s) =
     s\<lparr>messages := butlast (messages s)
          @ [(streamingMessage now srcs)\<lparr>msg_text := join_sp (take k (split_sp t))\<rparr>],
       streamIntervals := streamIntervals s
          @ [Some \<lparr>words = split_sp t, currentText = join_sp (take k (split_sp t)),
                   wordIndex = k\<rparr>]\<rparr>"
  unfolding reveal_run_def
  by (subst reveal_ticks[where ws = "split_sp t" and pre = "butlast (messages s)"
        and m = "streamingMessage now srcs"])
     (simp_all add: simulate_shape)

lemma simulate_finish:
  "reveal_run (length (streamIntervals s)) (Suc (length (split_sp t)))
     (simulateStreamingResponse now t srcs s) =
     s\<lparr>messages := butlast (messages s)
          @ [(streamingMessage now srcs)\<lparr>msg_text := t, isStreaming := False\<rparr>],
       streamIntervals := streamIntervals s @ [None]\<rparr>"
  unfolding reveal_run_def
  by (subst reveal_last_tick[where ws = "split_sp t" and pre = "butlast (messages s)"
        and m = "streamingMessage now srcs"])
     (simp_all add: simulate_shape join_split_from[of "[]", simplified] split_sp_def)



text \<open>
  \<^bold>\<open>C9.\<close> For every string \<open>fullText\<close>, the pieces of \<open>fullText.split(' ')\<close> joined
  again with single spaces are \<open>fullText\<close>, and the reveal run ends with exactly that
  text in the tail message: after as many ticks as there are pieces the timer is still
  set and the tail still streaming, and the next tick leaves the tail with the text
  \<open>fullText\<close>, not streaming, and the timer cleared.
\<close>

theorem reveal_restores_fullText:
  "(k \<le> length (split_sp fullText) \<longrightarrow>
      streamIntervals (reveal_run (length (streamIntervals s)) k
         (simulateStreamingResponse now fullText srcs s)) ! length (streamIntervals s) \<noteq> None
      \<and> isStreaming (last (messages (reveal_run (length (streamIntervals s)) k
         (simulateStreamingResponse now fullText srcs s)))))
   \<and> reveal_run (length (streamIntervals s)) (Suc (length (split_sp fullText)))
        (simulateStreamingResponse now fullText srcs s) =
      s\<lparr>messages := butlast (messages s)
           @ [(streamingMessage now srcs)\<lparr>msg_text := fullText, isStreaming := False\<rparr>],
        streamIntervals := streamIntervals s @ [None]\<rparr>
   \<and> join_sp (split_sp fullText) = fullText"
proof -
  have "join_sp (split_sp fullText) = fullText"
    using join_split_from[of "[]" fullText] by (simp add: split_sp_def)
  moreover have "k \<le> length (split_sp fullText) \<longrightarrow>
      streamIntervals (reveal_run (length (streamIntervals s)) k
         (simulateStreamingResponse now fullText srcs s)) ! length (streamIntervals s) \<noteq> None
      \<and> isStreaming (last (messages (reveal_run (length (streamIntervals s)) k
         (simulateStreamingResponse now fullText srcs s))))"
    by (simp add: simulate_ticks)
  ultimately show ?thesis
    using simulate_finish[of s fullText now srcs] by simp
qed

theorem reveal_restores_fullText_witness:
  "(1::nat) \<le> length (split_sp (js ''a  b''))
   \<and> isStreaming (last (messages (reveal_run 0 1
         (simulateStreamingResponse 7 (js ''a  b'') None (initial_state None)))))
   \<and> msg_text (last (messages (reveal_run 0 4
         (simulateStreamingResponse 7 (js ''a  b'') None (initial_state None))))) = js ''a  b''"
proof -
  have l: "length (split_sp (js ''a  b'')) = 3"
    by (simp add: split_sp_def js_def)
  have i: "length (streamIntervals (initial_state None)) = 0"
    by (simp add: initial_state_def)
  show ?thesis
    using reveal_restores_fullText[of 1 "js ''a  b''" "initial_state None" 7 None]
    by (simp add: l i)
qed

text \<open>
  \<^bold>\<open>C7\<close> (as amended). The reveal of the empty string does not end at once. It
  replaces the tail with a streaming message of empty text and sets a timer over the one
  empty piece of \<open>"".split(' ')\<close>; the first tick appends that piece, which leaves the
  text empty and the message streaming; the second tick ends the streaming, with the
  text still empty, and clears the timer.
\<close>

theorem reveal_empty_two_ticks:
  "simulateStreamingResponse now [] srcs s =
     s\<lparr>messages := butlast (messages s) @ [streamingMessage now srcs],
       streamIntervals := streamIntervals s
         @ [Some \<lparr>words = [[]], currentText = [], wordIndex = 0\<rparr>]\<rparr>
   \<and> reveal_run (length (streamIntervals s)) 1 (simulateStreamingResponse now [] srcs s) =
     s\<lparr>messages := butlast (messages s) @ [streamingMessage now srcs],
       streamIntervals := streamIntervals s
         @ [Some \<lparr>words = [[]], currentText = [], wordIndex = 1\<rparr>]\<rparr>
   \<and> reveal_run (length (streamIntervals s)) 2 (simulateStreamingResponse now [] srcs s) =
     s\<lparr>messages := butlast (messages s) @ [(streamingMessage now srcs)\<lparr>isStreaming := False\<rparr>],
       streamIntervals := streamIntervals s @ [None]\<rparr>"
proof -
  have w: "split_sp [] = [[]]" by (simp add: split_sp_def)
  have m: "(streamingMessage now srcs)\<lparr>msg_text := []\<rparr> = streamingMessage now srcs"
    by (simp add: streamingMessage_def bot_message_def)
  have "reveal_run (length (streamIntervals s)) 1 (simulateStreamingResponse now [] srcs s) =
     s\<lparr>messages := butlast (messages s) @ [streamingMessage now srcs],
       streamIntervals := streamIntervals s
         @ [Some \<lparr>words = [[]], currentText = [], wordIndex = 1\<rparr>]\<rparr>"
    by (subst simulate_ticks) (simp_all add: w m)
  moreover have "reveal_run (length (streamIntervals s)) 2 (simulateStreamingResponse now [] srcs s) =
     s\<lparr>messages := butlast (messages s) @ [(streamingMessage now srcs)\<lparr>isStreaming := False\<rparr>],
       streamIntervals := streamIntervals s @ [None]\<rparr>"
    using simulate_finish[of s "[]" now srcs] by (simp add: w m numeral_2_eq_2)
  ultimately show ?thesis by (simp add: simulate_shape w)
qed

text \<open>
  The claim as stated fails: right after the call, and still after the first tick, the
  tail is streaming, and the call has left a timer set. So it is for the bare call, and
  so it is in the component, when the answer to a message that was sent carries the
  empty response.
\<close>

theorem reveal_empty_not_immediate:
  "isStreaming (last (messages (simulateStreamingResponse 7 [] None (initial_state None))))
   \<and> streamIntervals (simulateStreamingResponse 7 [] None (initial_state None)) =
       [Some \<lparr>words = [[]], currentText = [], wordIndex = 0\<rparr>]
   \<and> isStreaming (last (messages (streamInterval_tick 0
        (simulateStreamingResponse 7 [] None (initial_state None)))))
   \<and> isStreaming (last (messages (run typed_state empty_answer)))
   \<and> streamIntervals (run typed_state empty_answer) =
       [Some \<lparr>words = [[]], currentText = [], wordIndex = 0\<rparr>]
   \<and> isStreaming (last (messages (run typed_state (empty_answer @ [Tick 0]))))
   \<and> \<not> isStreaming (last (messages (run typed_state (empty_answer @ [Tick 0, Tick 0]))))"
proof -
  have "isStreaming (last (messages (simulateStreamingResponse 7 [] None (initial_state None))))
   \<and> streamIntervals (simulateStreamingResponse 7 [] None (initial_state None)) =
       [Some \<lparr>words = [[]], currentText = [], wordIndex = 0\<rparr>]
   \<and> isStreaming (last (messages (streamInterval_tick 0
        (simulateStreamingResponse 7 [] None (initial_state None)))))"
    by (simp add: simulate_shape split_sp_def initial_state_def streamInterval_tick_def
        set_last_text_def)
  moreover have "isStreaming (last (messages (run typed_state empty_answer)))
   \<and> streamIntervals (run typed_state empty_answer) =
       [Some \<lparr>words = [[]], currentText = [], wordIndex = 0\<rparr>]
   \<and> isStreaming (last (messages (run typed_state (empty_answer @ [Tick 0]))))
   \<and> \<not> isStreaming (last (messages (run typed_state (empty_answer @ [Tick 0, Tick 0]))))"
    by (simp add: empty_answer_def typed_state_def ready_state_def initializeSession_def
        try_initialize_def session_ready_def initial_state_def Let_def
        handleSendMessage_def handleSendMessage_settled_def simulateStreamingResponse_def
        replace_tail_def streamInterval_tick_def set_last_text_def end_last_streaming_def
        split_sp_def trim_def is_ws_def userMessage_def typingMessage_def
        streamingMessage_def bot_message_def welcomeMessage_def js_def)
  ultimately show ?thesis by blast
qed

subsection \<open>The example state\<close>

lemma ready_state_eq:
  "ready_state =
     \<lparr>sessionId = Some (js ''s1''), isConnected = True, messages = [welcomeMessage 1000],
      inputValue = [], isDarkTheme = False, isLoading = False, isInitializing = False,
      isFirstLoad = False, error = None, storedSessionId = Some (js ''s1''),
      streamIntervals = [], retryTimeouts = 0, chatRequests = [], resetRequests = 0\<rparr>"
  by (simp add: ready_state_def initializeSession_def try_initialize_def session_ready_def
      initial_state_def Let_def)

lemma js_s1_ne [simp]: "js ''s1'' \<noteq> []"
  by (simp add: js_def)

subsection \<open>Dispatcher guard\<close>

lemma handleSendMessage_blocked:
  "trim (inputValue s) = [] \<or> isLoading s \<or> falsy (sessionId s) \<or> \<not> isConnected s \<Longrightarrow>
   handleSendMessage now s = s"
  by (simp add: handleSendMessage_def)

lemma handleSendMessage_sends:
  "\<not> (trim (inputValue s) = [] \<or> isLoading s \<or> falsy (sessionId s) \<or> \<not> isConnected s) \<Longrightarrow>
   handleSendMessage now s =
     s\<lparr>messages := messages s @ [userMessage now (trim (inputValue s)), typingMessage now],
       inputValue := [], isLoading := True, error := None,
       chatRequests := chatRequests s @ [(sessionId s, trim (inputValue s))]\<rparr>"
  by (simp add: handleSendMessage_def)

text \<open>
  \<^bold>\<open>C3.\<close> \<open>send\<close> leaves the whole state as it is exactly when the input is empty
  or white space only, a send is in flight (\<open>isLoading\<close>), there is no session
  identifier (\<open>!sessionId\<close>), or the connectivity flag is false; and exactly then it
  leaves the transcript as it is.
\<close>

theorem send_noop_iff:
  "(handleSendMessage now s = s \<longleftrightarrow>
      trim (inputValue s) = [] \<or> isLoading s \<or> falsy (sessionId s) \<or> \<not> isConnected s)
   \<and> (messages (handleSendMessage now s) = messages s \<longleftrightarrow>
      trim (inputValue s) = [] \<or> isLoading s \<or> falsy (sessionId s) \<or> \<not> isConnected s)"
proof (cases "trim (inputValue s) = [] \<or> isLoading s \<or> falsy (sessionId s) \<or> \<not> isConnected s")
  case True
  then show ?thesis using handleSendMessage_blocked[OF True, of now] by simp
next
  case False
  have "messages (handleSendMessage now s) \<noteq> messages s"
    by (simp add: handleSendMessage_sends[OF False])
  moreover from this have "handleSendMessage now s \<noteq> s" by auto
  ultimately show ?thesis using False by blast
qed

lemma trim_hi: "trim (js '' hi '') = js ''hi''"
  by (simp add: trim_def js_def is_ws_def)

lemma typed_state_eq: "typed_state = ready_state\<lparr>inputValue := js '' hi ''\<rparr>"
  by (simp add: typed_state_def ready_state_eq js_def)

theorem send_noop_iff_witness:
  "handleSendMessage 2000 ready_state = ready_state
   \<and> trim (inputValue ready_state) = []
   \<and> \<not> isLoading typed_state \<and> \<not> falsy (sessionId typed_state) \<and> isConnected typed_state
   \<and> trim (inputValue typed_state) = js ''hi''
   \<and> messages (handleSendMessage 2000 typed_state) \<noteq> messages typed_state"
proof -
  have a: "trim (inputValue ready_state) = []"
    by (simp add: ready_state_eq trim_def)
  have b: "\<not> isLoading typed_state" "\<not> falsy (sessionId typed_state)" "isConnected typed_state"
    "trim (inputValue typed_state) = js ''hi''"
    by (simp_all add: typed_state_eq ready_state_eq trim_hi)
  have c: "js ''hi'' \<noteq> []" by (simp add: js_def)
  show ?thesis
    using a b c send_noop_iff[of 2000 ready_state] send_noop_iff[of 2000 typed_state]
    by simp
qed

subsection \<open>Session reset\<close>

lemma reset_settled_ok:
  "handleResetSession_settled now ResetOk t =
     t\<lparr>messages := [resetMessage now], error := None, isLoading := False\<rparr>"
  by (simp add: handleResetSession_settled_def)

lemma reset_settled_failed:
  "r \<noteq> ResetOk \<Longrightarrow>
   handleResetSession_settled now r t =
     t\<lparr>isConnected := False, error := Some (reset_error r), isLoading := False\<rparr>"
  by (cases r; cases "r = ResetRejected AbortError")
     (auto simp: handleResetSession_settled_def reset_failed_def reset_error_def)

lemma reset_then_settle:
  "\<not> falsy (sessionId s) \<Longrightarrow> isConnected s \<Longrightarrow>
   fire (Reset_settle now r) (handleResetSession s) =
     handleResetSession_settled now r (s\<lparr>isLoading := True\<rparr>)"
  by (simp add: handleResetSession_def)

text \<open>
  \<^bold>\<open>C8.\<close> A reset started with a session and a live connection, whose delete
  request succeeds, leaves a transcript of exactly one message, the welcome message of
  the reset, and changes the session identifier neither in the state nor in the store.
\<close>

theorem reset_keeps_session:
  "\<not> falsy (sessionId s) \<Longrightarrow> isConnected s \<Longrightarrow>
   fire (Reset_settle now ResetOk) (handleResetSession s) =
     s\<lparr>messages := [resetMessage now], error := None, isLoading := False\<rparr>
   \<and> messages (fire (Reset_settle now ResetOk) (handleResetSession s)) = [resetMessage now]
   \<and> isWelcome (resetMessage now) \<and> sender (resetMessage now) = Bot
   \<and> sessionId (fire (Reset_settle now ResetOk) (handleResetSession s)) = sessionId s
   \<and> storedSessionId (fire (Reset_settle now ResetOk) (handleResetSession s)) =
       storedSessionId s
   \<and> sessionId (handleResetSession s) = sessionId s
   \<and> storedSessionId (handleResetSession s) = storedSessionId s"
proof -
  assume h: "\<not> falsy (sessionId s)" "isConnected s"
  have "isWelcome (resetMessage now) \<and> sender (resetMessage now) = Bot"
    by (simp add: resetMessage_def bot_message_def)
  moreover have "sessionId (handleResetSession s) = sessionId s
      \<and> storedSessionId (handleResetSession s) = storedSessionId s"
    by (simp add: handleResetSession_def)
  ultimately show ?thesis
    unfolding reset_then_settle[OF h] reset_settled_ok by simp
qed

theorem reset_keeps_session_witness:
  "\<not> falsy (sessionId ready_state) \<and> isConnected ready_state
   \<and> messages (fire (Reset_settle 2000 ResetOk) (handleResetSession ready_state)) =
       [resetMessage 2000]
   \<and> sessionId (fire (Reset_settle 2000 ResetOk) (handleResetSession ready_state)) =
       Some (js ''s1'')
   \<and> storedSessionId (fire (Reset_settle 2000 ResetOk) (handleResetSession ready_state)) =
       Some (js ''s1'')"
proof -
  have h: "\<not> falsy (sessionId ready_state)" "isConnected ready_state"
    by (simp_all add: ready_state_eq)
  have v: "sessionId ready_state = Some (js ''s1'')"
    "storedSessionId ready_state = Some (js ''s1'')"
    by (simp_all add: ready_state_eq)
  from reset_keeps_session[OF h, of 2000]
  have "messages (fire (Reset_settle 2000 ResetOk) (handleResetSession ready_state)) =
       [resetMessage 2000]
   \<and> sessionId (fire (Reset_settle 2000 ResetOk) (handleResetSession ready_state)) =
       sessionId ready_state
   \<and> storedSessionId (fire (Reset_settle 2000 ResetOk) (handleResetSession ready_state)) =
       storedSessionId ready_state"
    by blast
  with h show ?thesis unfolding v by blast
qed

text \<open>
  \<^bold>\<open>C10.\<close> A reset whose request is not 2xx, is rejected or times out leaves the
  transcript as it was; of the state it changes the connectivity flag and the standing
  error only (the busy flag, set for the duration of the request, is back to false,
  which it was when the reset button could be pressed).
\<close>

theorem reset_failure_keeps_transcript:
  "\<not> falsy (sessionId s) \<Longrightarrow> isConnected s \<Longrightarrow> r \<noteq> ResetOk \<Longrightarrow>
   messages (handleResetSession s) = messages s
   \<and> messages (fire (Reset_settle now r) (handleResetSession s)) = messages s
   \<and> fire (Reset_settle now r) (handleResetSession s) =
       s\<lparr>isConnected := False, error := Some (reset_error r), isLoading := False\<rparr>
   \<and> (\<not> isLoading s \<longrightarrow>
        fire (Reset_settle now r) (handleResetSession s) =
          s\<lparr>isConnected := False, error := Some (reset_error r)\<rparr>)"
proof -
  assume h: "\<not> falsy (sessionId s)" "isConnected s" and r: "r \<noteq> ResetOk"
  have "messages (handleResetSession s) = messages s"
    by (simp add: handleResetSession_def)
  then show ?thesis
    unfolding reset_then_settle[OF h] reset_settled_failed[OF r] by simp
qed

theorem reset_failure_keeps_transcript_witness:
  "\<not> falsy (sessionId ready_state) \<and> isConnected ready_state
   \<and> ResetRejected AbortError \<noteq> ResetOk \<and> \<not> isLoading ready_state
   \<and> fire (Reset_settle 2000 (ResetRejected AbortError)) (handleResetSession ready_state) =
        ready_state\<lparr>isConnected := False, error := Some (js ''Reset request timed out.'')\<rparr>
   \<and> messages (fire (Reset_settle 2000 (ResetRejected AbortError))
        (handleResetSession ready_state)) = [welcomeMessage 1000]"
proof -
  have h: "\<not> falsy (sessionId ready_state)" "isConnected ready_state"
    "ResetRejected AbortError \<noteq> ResetOk"
    by (simp_all add: ready_state_eq)
  have l: "\<not> isLoading ready_state" by (simp add: ready_state_eq)
  have m: "messages ready_state = [welcomeMessage 1000]" by (simp add: ready_state_eq)
  have e: "reset_error (ResetRejected AbortError) = js ''Reset request timed out.''"
    by (simp add: reset_error_def)
  from reset_failure_keeps_transcript[OF h, of 2000] l
  have "messages (fire (Reset_settle 2000 (ResetRejected AbortError))
          (handleResetSession ready_state)) = messages ready_state
      \<and> fire (Reset_settle 2000 (ResetRejected AbortError)) (handleResetSession ready_state) =
          ready_state\<lparr>isConnected := False,
            error := Some (reset_error (ResetRejected AbortError))\<rparr>"
    by blast
  with h l show ?thesis unfolding m e by blast
qed

subsection \<open>Connectivity monitor\<close>

text \<open>A probe that is rejected changes the state on a transition only.\<close>

lemma rejected_probe_idempotent:
  "monitor_poll ProbeRejected (monitor_poll ProbeRejected s) = monitor_poll ProbeRejected s"
  by (simp add: monitor_poll_def checkConnection_def)

lemma rejected_probe_only_on_transition:
  "\<not> isConnected s \<Longrightarrow> monitor_poll ProbeRejected s = s"
  by (simp add: monitor_poll_def checkConnection_def)

text \<open>
  \<^bold>\<open>C5.\<close> The claim asks that a failed probe changes the state only when the status
  was connected. The branch for an answer that is not 2xx has no such test: after a
  rejected probe has disconnected the component and set its error, a second failed
  probe, answered with a status that is not 2xx, sets another error message.
\<close>

theorem not_ok_probe_sets_error_again:
  "isConnected ready_state
   \<and> isConnected (monitor_poll ProbeRejected ready_state) = False
   \<and> error (monitor_poll ProbeRejected ready_state) = Some (js ''Cannot reach backend service'')
   \<and> error (monitor_poll ProbeNotOk (monitor_poll ProbeRejected ready_state)) =
       Some (js ''Backend service returned an error'')
   \<and> error (monitor_poll ProbeNotOk (monitor_poll ProbeRejected ready_state)) \<noteq>
       error (monitor_poll ProbeRejected ready_state)"
  by (simp add: monitor_poll_def checkConnection_def ready_state_eq) (simp add: js_def)

subsection \<open>Session manager\<close>

lemma try_initialize_fails:
  "bootstrap_fails a (storedSessionId s) e \<Longrightarrow> try_initialize now a s = Inl e"
  by (auto simp: bootstrap_fails_def try_initialize_def)

lemma initializeSession_fails:
  "bootstrap_fails a (storedSessionId s) e \<Longrightarrow>
   initializeSession now a s =
     (if isFirstLoad s \<and> e = AbortError then
        s\<lparr>isInitializing := False, isConnected := False,
          error := Some (js ''Backend is starting up (free tier). Retrying in 5 seconds...''),
          retryTimeouts := retryTimeouts s + 1\<rparr>
      else
        s\<lparr>isInitializing := False, isConnected := False, storedSessionId := None,
          sessionId := None, messages := [unableMessage now],
          error := Some
            (if e = AbortError
             then js (''Connection timed out. The backend may be starting up on free ''
                      @ ''tier (takes 30-60s). Please wait and refresh.'')
             else js ''Failed to connect to chat service.'')\<rparr>)"
  by (simp add: initializeSession_def Let_def try_initialize_fails[where e = e])

lemma retry_after_timeout:
  assumes "bootstrap_fails a (storedSessionId s) AbortError" "isFirstLoad s"
  shows "retry_fires now' a (initializeSession now a s) = initializeSession now a s"
proof -
  let ?t = "s\<lparr>isInitializing := False, isConnected := False,
          error := Some (js ''Backend is starting up (free tier). Retrying in 5 seconds...''),
          retryTimeouts := retryTimeouts s + 1\<rparr>"
  have 1: "initializeSession now a s = ?t"
    using assms by (simp add: initializeSession_fails[where e = AbortError])
  have "bootstrap_fails a (storedSessionId (?t\<lparr>retryTimeouts := retryTimeouts ?t - 1, error := None\<rparr>)) AbortError"
    using assms by simp
  then have "initializeSession now' a (?t\<lparr>retryTimeouts := retryTimeouts ?t - 1, error := None\<rparr>) = ?t"
    using assms(2) by (simp add: initializeSession_fails[where e = AbortError])
  then show ?thesis
    unfolding 1 by (simp add: retry_fires_def)
qed

lemma retries_after_timeouts:
  assumes "bootstrap_fails a (storedSessionId s) AbortError" "isFirstLoad s"
  shows "(retry_fires now' a ^^ n) (initializeSession now a s) = initializeSession now a s"
  by (induction n) (simp_all add: retry_after_timeout[OF assms])

text \<open>
  \<^bold>\<open>C4\<close> (as amended). A bootstrap that fails by a timeout (of the health probe or
  of the creation of the session) while \<open>isFirstLoad\<close> holds, that is before any
  bootstrap has succeeded, schedules one delayed retry of the whole bootstrap and shows
  the transient status; it touches neither the stored identifier nor the transcript.
  This holds for the retry as for the first attempt, so after any number of retries
  that time out a retry is pending again: the retries are not bounded. Any other failure
  is terminal: the stored identifier and the session are cleared, the transcript is the
  one synthesized error message, a persistent error is set, and no retry is scheduled.
\<close>

theorem bootstrap_failure:
  "bootstrap_fails a (storedSessionId s) e \<Longrightarrow>
   initializeSession now a s =
     (if isFirstLoad s \<and> e = AbortError then
        s\<lparr>isInitializing := False, isConnected := False,
          error := Some (js ''Backend is starting up (free tier). Retrying in 5 seconds...''),
          retryTimeouts := retryTimeouts s + 1\<rparr>
      else
        s\<lparr>isInitializing := False, isConnected := False, storedSessionId := None,
          sessionId := None, messages := [unableMessage now],
          error := Some
            (if e = AbortError
             then js (''Connection timed out. The backend may be starting up on free ''
                      @ ''tier (takes 30-60s). Please wait and refresh.'')
             else js ''Failed to connect to chat service.'')\<rparr>)
   \<and> (isFirstLoad s \<and> e = AbortError \<longrightarrow>
        (retry_fires now' a ^^ n) (initializeSession now a s) = initializeSession now a s
        \<and> retryTimeouts ((retry_fires now' a ^^ n) (initializeSession now a s)) =
            retryTimeouts s + 1)"
proof -
  assume f: "bootstrap_fails a (storedSessionId s) e"
  have "isFirstLoad s \<and> e = AbortError \<longrightarrow>
        (retry_fires now' a ^^ n) (initializeSession now a s) = initializeSession now a s
        \<and> retryTimeouts ((retry_fires now' a ^^ n) (initializeSession now a s)) =
            retryTimeouts s + 1"
  proof (intro impI)
    assume h: "isFirstLoad s \<and> e = AbortError"
    then have "(retry_fires now' a ^^ n) (initializeSession now a s) = initializeSession now a s"
      using f retries_after_timeouts[where a = a and s = s and now' = now' and n = n and now = now] by simp
    moreover have "retryTimeouts (initializeSession now a s) = retryTimeouts s + 1"
      using h f by (simp add: initializeSession_fails[where e = AbortError])
    ultimately show "(retry_fires now' a ^^ n) (initializeSession now a s) = initializeSession now a s
        \<and> retryTimeouts ((retry_fires now' a ^^ n) (initializeSession now a s)) =
            retryTimeouts s + 1" by simp
  qed
  then show ?thesis using initializeSession_fails[OF f, of now] by simp
qed

lemma cold_fails: "bootstrap_fails cold_answers saved AbortError"
  by (simp add: bootstrap_fails_def cold_answers_def)

theorem bootstrap_failure_witness:
  "bootstrap_fails cold_answers (storedSessionId (initial_state (Some (js ''s1'')))) AbortError
   \<and> isFirstLoad (initial_state (Some (js ''s1'')))
   \<and> retryTimeouts (initializeSession 1000 cold_answers (initial_state (Some (js ''s1'')))) = 1
   \<and> storedSessionId (initializeSession 1000 cold_answers (initial_state (Some (js ''s1'')))) =
        Some (js ''s1'')
   \<and> retryTimeouts ((retry_fires 6000 cold_answers ^^ 3)
        (initializeSession 1000 cold_answers (initial_state (Some (js ''s1''))))) = 1"
proof -
  have f: "bootstrap_fails cold_answers (storedSessionId (initial_state (Some (js ''s1'')))) AbortError"
    by (rule cold_fails)
  have i: "isFirstLoad (initial_state (Some (js ''s1'')))"
    "retryTimeouts (initial_state (Some (js ''s1''))) = 0"
    "storedSessionId (initial_state (Some (js ''s1''))) = Some (js ''s1'')"
    by (simp_all add: initial_state_def)
  note b = bootstrap_failure[OF f, where now = 1000 and now' = 6000 and n = 3]
  from b i(1) have "retryTimeouts ((retry_fires 6000 cold_answers ^^ 3)
        (initializeSession 1000 cold_answers (initial_state (Some (js ''s1''))))) =
      retryTimeouts (initial_state (Some (js ''s1''))) + 1"
    by blast
  then have r: "retryTimeouts ((retry_fires 6000 cold_answers ^^ 3)
        (initializeSession 1000 cold_answers (initial_state (Some (js ''s1''))))) = 1"
    by (simp only: i(2))
  from b i(1) have e: "initializeSession 1000 cold_answers (initial_state (Some (js ''s1''))) =
      (initial_state (Some (js ''s1'')))
        \<lparr>isInitializing := False, isConnected := False,
          error := Some (js ''Backend is starting up (free tier). Retrying in 5 seconds...''),
          retryTimeouts := retryTimeouts (initial_state (Some (js ''s1''))) + 1\<rparr>"
    by simp
  have "retryTimeouts (initializeSession 1000 cold_answers (initial_state (Some (js ''s1'')))) = 1"
    "storedSessionId (initializeSession 1000 cold_answers (initial_state (Some (js ''s1'')))) =
        Some (js ''s1'')"
    unfolding e by (simp_all add: i)
  with f i(1) r show ?thesis by blast
qed

text \<open>
  The claim as stated fails: when the retry times out as well, the failure is not
  terminal. The stored identifier is kept, the transcript is not replaced, the status is
  the transient one, and a second retry is pending; when that one times out, a third.
\<close>

theorem retry_timeout_not_terminal:
  "retryTimeouts (retry_fires 6000 cold_answers
      (initializeSession 1000 cold_answers (initial_state (Some (js ''s1''))))) = 1
   \<and> storedSessionId (retry_fires 6000 cold_answers
      (initializeSession 1000 cold_answers (initial_state (Some (js ''s1''))))) = Some (js ''s1'')
   \<and> messages (retry_fires 6000 cold_answers
      (initializeSession 1000 cold_answers (initial_state (Some (js ''s1''))))) = []
   \<and> error (retry_fires 6000 cold_answers
      (initializeSession 1000 cold_answers (initial_state (Some (js ''s1''))))) =
        Some (js ''Backend is starting up (free tier). Retrying in 5 seconds...'')
   \<and> retryTimeouts (retry_fires 11000 cold_answers (retry_fires 6000 cold_answers
      (initializeSession 1000 cold_answers (initial_state (Some (js ''s1'')))))) = 1"
  by (simp add: retry_fires_def initializeSession_def try_initialize_def cold_answers_def
      initial_state_def Let_def)

subsection \<open>The streaming message along a run\<close>

lemma none_streaming_simps [simp]:
  "none_streaming []"
  "none_streaming (m # ms) \<longleftrightarrow> \<not> isStreaming m \<and> none_streaming ms"
  "none_streaming (ms @ ns) \<longleftrightarrow> none_streaming ms \<and> none_streaming ns"
  by (auto simp: none_streaming_def)

lemma none_streaming_iff: "none_streaming ms \<longleftrightarrow> (\<forall>m \<in> set ms. \<not> isStreaming m)"
  by (induction ms) auto

lemma none_streaming_filter [simp]: "none_streaming (filter (\<lambda>m. \<not> isStreaming m) ms)"
  by (simp add: none_streaming_iff)

lemma none_streaming_butlast: "none_streaming ms \<Longrightarrow> none_streaming (butlast ms)"
  by (auto simp: none_streaming_iff dest: in_set_butlastD)

lemma tail_only_count:
  "none_streaming (butlast ms) \<Longrightarrow> length (filter isStreaming ms) \<le> 1"
  by (cases ms rule: rev_cases) (auto simp: none_streaming_def)

lemma tail_only_index:
  "none_streaming (butlast ms) \<Longrightarrow> k < length ms \<Longrightarrow> isStreaming (ms ! k) \<Longrightarrow>
   Suc k = length ms"
proof (cases ms rule: rev_cases)
  case Nil
  assume "k < length ms" with Nil show ?thesis by simp
next
  case (snoc ys y)
  assume a: "none_streaming (butlast ms)" "k < length ms" "isStreaming (ms ! k)"
  show ?thesis
  proof (rule ccontr)
    assume "Suc k \<noteq> length ms"
    with a(2) snoc have k: "k < length ys" by simp
    then have "ms ! k \<in> set ys" using snoc by (simp add: nth_append)
    with a(1,3) snoc show False by (simp add: none_streaming_iff)
  qed
qed

lemma none_streaming_set_last_text [simp]:
  "none_streaming (set_last_text t ms) = none_streaming ms"
  "none_streaming (butlast (set_last_text t ms)) = none_streaming (butlast ms)"
  by (cases ms rule: rev_cases; simp add: set_last_text_def)+

lemma bot_streaming_set_last_text:
  "(\<forall>m \<in> set (set_last_text t ms). isStreaming m \<longrightarrow> sender m = Bot) \<longleftrightarrow>
   (\<forall>m \<in> set ms. isStreaming m \<longrightarrow> sender m = Bot)"
  by (cases ms rule: rev_cases) (auto simp: set_last_text_def)

lemma end_last_streaming_none:
  "none_streaming (butlast ms) \<Longrightarrow> \<forall>m \<in> set ms. isStreaming m \<longrightarrow> sender m = Bot \<Longrightarrow>
   none_streaming (end_last_streaming ms)"
  by (cases ms rule: rev_cases) (auto simp: end_last_streaming_def)

lemma no_timer_running_nth:
  "no_timer_running s \<Longrightarrow> i < length (streamIntervals s) \<Longrightarrow> streamIntervals s ! i = None"
  by (simp add: no_timer_running_def list_all_length)

lemma dispatch_inv_type: "dispatch_inv s \<Longrightarrow> dispatch_inv (fire (Type_input v) s)"
  by (auto simp: dispatch_inv_def no_timer_running_def)

lemma dispatch_inv_send:
  assumes "dispatch_inv s" "no_timer_running s"
  shows "dispatch_inv (fire (Send now) s)"
proof (cases "trim (inputValue s) = [] \<or> isLoading s \<or> falsy (sessionId s) \<or> \<not> isConnected s")
  case True
  then show ?thesis using assms(1) by (simp add: handleSendMessage_blocked)
next
  case False
  then have "chatRequests s = []" and rz: "resetRequests s = 0"
    using assms(1) by (auto simp: dispatch_inv_def)
  then have "none_streaming (messages s)" using assms by (simp add: dispatch_inv_def)
  then show ?thesis
    using assms False rz
    by (simp add: handleSendMessage_sends[OF False] dispatch_inv_def no_timer_running_def
        userMessage_def typingMessage_def bot_message_def butlast_append)
qed

lemma dispatch_inv_settle:
  assumes "dispatch_inv s"
  shows "dispatch_inv (fire (Settle now r) s)"
proof (cases "chatRequests s")
  case Nil
  then show ?thesis using assms by simp
next
  case (Cons q qs)
  then have qs: "qs = []" and nt: "no_timer_running s"
    and tl: "none_streaming (butlast (messages s))"
    and bot: "\<forall>m \<in> set (messages s). isStreaming m \<longrightarrow> sender m = Bot"
    and rz: "resetRequests s = 0"
    using assms by (auto simp: dispatch_inv_def)
  have bl: "\<forall>m \<in> set (butlast (messages s)). isStreaming m \<longrightarrow> sender m = Bot"
    using bot by (auto dest: in_set_butlastD)
  show ?thesis
  proof (cases r)
    case (ChatResponse t srcs)
    show ?thesis
    proof (cases t)
      case None
      then show ?thesis
        using Cons qs ChatResponse rz
        by (simp add: handleSendMessage_settled_def send_failed_def replace_tail_def
            dispatch_inv_def sendErrorMessage_def bot_message_def)
    next
      case (Some fullText)
      then show ?thesis
        using Cons qs ChatResponse tl bl rz
        by (simp add: handleSendMessage_settled_def simulate_shape dispatch_inv_def
            no_timer_running_def)
    qed
  next
    case ChatNotOk
    then show ?thesis
      using Cons qs rz
      by (simp add: handleSendMessage_settled_def send_failed_def
          dispatch_inv_def sendErrorMessage_def bot_message_def)
  next
    case (ChatRejected e)
    then show ?thesis
      using Cons qs rz
      by (simp add: handleSendMessage_settled_def send_failed_def
          dispatch_inv_def sendErrorMessage_def bot_message_def)
  qed
qed

lemma dispatch_inv_tick:
  assumes "dispatch_inv s"
  shows "dispatch_inv (fire (Tick i) s)"
proof (cases "i < length (streamIntervals s) \<and> streamIntervals s ! i \<noteq> None")
  case False
  then show ?thesis using assms by (auto simp: streamInterval_tick_def)
next
  case True
  then obtain r where i: "i < length (streamIntervals s)" and r: "streamIntervals s ! i = Some r"
    by auto
  have running: "\<not> no_timer_running s"
    using i r no_timer_running_nth[of s i] by auto
  then have req: "chatRequests s = []" using assms by (auto simp: dispatch_inv_def)
  have tl: "none_streaming (butlast (messages s))"
    and bot: "\<forall>m \<in> set (messages s). isStreaming m \<longrightarrow> sender m = Bot"
    and rr: "resetRequests s \<le> 1" "resetRequests s > 0 \<longrightarrow> isLoading s"
    using assms by (auto simp: dispatch_inv_def)
  show ?thesis
  proof (cases "wordIndex r < length (words r)")
    case True
    have "\<not> list_all (\<lambda>r. r = None) ((streamIntervals s)[i := Some x])" for x
      using i by (auto simp: list_all_length nth_list_update intro!: exI[of _ i])
    then show ?thesis
      using tl bot req rr
      by (simp add: tick_word[OF i r True] dispatch_inv_def no_timer_running_def
          bot_streaming_set_last_text)
  next
    case False
    have e: "none_streaming (end_last_streaming (messages s))"
      using tl bot by (rule end_last_streaming_none)
    have "none_streaming (butlast (end_last_streaming (messages s)))"
      using e by (rule none_streaming_butlast)
    moreover have "\<forall>m \<in> set (end_last_streaming (messages s)). isStreaming m \<longrightarrow> sender m = Bot"
      using e by (simp add: none_streaming_iff)
    ultimately show ?thesis
      using e req rr by (simp add: tick_end[OF i r False] dispatch_inv_def)
  qed
qed

lemma dispatch_inv_reset_click:
  assumes "dispatch_inv s"
  shows "dispatch_inv (fire Reset_click s)"
proof (cases "isLoading s \<or> \<not> isConnected s \<or> falsy (sessionId s)")
  case True
  then show ?thesis using assms by (auto simp: handleResetSession_def)
next
  case False
  then have "chatRequests s = []" "resetRequests s = 0"
    using assms by (auto simp: dispatch_inv_def)
  then show ?thesis
    using assms False
    by (simp add: handleResetSession_def dispatch_inv_def no_timer_running_def)
qed

lemma dispatch_inv_reset_settle:
  assumes "dispatch_inv s"
  shows "dispatch_inv (fire (Reset_settle now r) s)"
proof (cases "resetRequests s = 0")
  case True
  then show ?thesis using assms by simp
next
  case False
  then have one: "resetRequests s = 1" and req: "chatRequests s = []"
    using assms by (auto simp: dispatch_inv_def)
  show ?thesis
  proof (cases "r = ResetOk")
    case True
    then show ?thesis
      using one req
      by (simp add: reset_settled_ok dispatch_inv_def no_timer_running_def
          resetMessage_def bot_message_def)
  next
    case False
    then show ?thesis
      using one req assms
      by (simp add: reset_settled_failed dispatch_inv_def no_timer_running_def)
  qed
qed

lemma dispatch_inv_probe: "dispatch_inv s \<Longrightarrow> dispatch_inv (fire (Probe c r) s)"
  by (cases r) (auto simp: checkConnection_def dispatch_inv_def no_timer_running_def)

lemma dispatch_inv_dismiss: "dispatch_inv s \<Longrightarrow> dispatch_inv (fire Dismiss_error s)"
  by (auto simp: dispatch_inv_def no_timer_running_def)

lemma dispatch_inv_run:
  "dispatch_inv s \<Longrightarrow> sends_after_reveals s es \<Longrightarrow> dispatch_inv (run s es)"
proof (induction es arbitrary: s)
  case Nil
  then show ?case by simp
next
  case (Cons e es)
  have "dispatch_inv (fire e s) \<and> sends_after_reveals (fire e s) es"
  proof (cases e)
    case (Type_input v)
    then show ?thesis using Cons.prems dispatch_inv_type[of s v] by simp
  next
    case (Send now)
    then show ?thesis using Cons.prems dispatch_inv_send[of s now] by simp
  next
    case (Settle now r)
    then show ?thesis using Cons.prems dispatch_inv_settle[of s now r] by simp
  next
    case (Tick i)
    then show ?thesis using Cons.prems dispatch_inv_tick[of s i] by simp
  next
    case Reset_click
    then show ?thesis using Cons.prems dispatch_inv_reset_click[of s] by simp
  next
    case (Reset_settle now r)
    then show ?thesis using Cons.prems dispatch_inv_reset_settle[of s now r] by simp
  next
    case (Probe c r)
    then show ?thesis using Cons.prems dispatch_inv_probe[of s c r] by simp
  next
    case Dismiss_error
    then show ?thesis using Cons.prems dispatch_inv_dismiss[of s] by simp
  qed
  then show ?case using Cons.IH by simp
qed

lemma quiet_dispatch_inv: "quiet s \<Longrightarrow> dispatch_inv s"
  by (auto simp: quiet_def dispatch_inv_def none_streaming_iff dest: in_set_butlastD)

lemma dispatch_inv_reveal_run: "dispatch_inv s \<Longrightarrow> dispatch_inv (reveal_run i k s)"
  unfolding reveal_run_def
  by (induction k) (simp_all add: dispatch_inv_tick[simplified])

lemmas run_defs = handleSendMessage_def handleSendMessage_settled_def
  simulateStreamingResponse_def replace_tail_def streamInterval_tick_def set_last_text_def
  end_last_streaming_def send_failed_def Let_def split_sp_def trim_def is_ws_def
  userMessage_def typingMessage_def streamingMessage_def bot_message_def welcomeMessage_def

lemma run_append: "run s (es @ fs) = run (run s es) fs"
  by (induction es arbitrary: s) simp_all

lemma first_reply_ticking_state:
  "run ready_state first_reply_ticking =
     ready_state
       \<lparr>messages := [welcomeMessage 1000, userMessage 2000 (js ''hi''),
                     (streamingMessage 2500 None)\<lparr>msg_text := js ''a''\<rparr>],
        inputValue := js ''yo'',
        streamIntervals := [Some \<lparr>words = [js ''a'', js ''b'', js ''c''],
                                   currentText = js ''a'', wordIndex = 1\<rparr>]\<rparr>"
  by (simp add: first_reply_ticking_def ready_state_eq run_defs js_def)

lemma quiet_ready_state: "quiet ready_state"
  by (simp add: quiet_def no_timer_running_def ready_state_eq welcomeMessage_def bot_message_def)

text \<open>
  The sequencing that the reveal engine expects keeps the streaming message at the
  tail: from a quiet state, along every sequence of callbacks of the component (steps
  of the dispatcher and of the reveal engine, and with them the reset, the probes of
  the monitor, typing and dismissing the error) in which no send is issued while a
  reveal timer is set, at most one message of the transcript is streaming, and a
  streaming message is the last one. Nothing in the component enforces that sequencing.
\<close>

theorem one_streaming_tail:
  "quiet s \<Longrightarrow> sends_after_reveals s es \<Longrightarrow>
   length (filter isStreaming (messages (run s es))) \<le> 1
   \<and> (\<forall>k < length (messages (run s es)).
        isStreaming (messages (run s es) ! k) \<longrightarrow> Suc k = length (messages (run s es)))"
proof -
  assume "quiet s" "sends_after_reveals s es"
  then have "dispatch_inv (run s es)"
    by (simp add: quiet_dispatch_inv dispatch_inv_run)
  then have "none_streaming (butlast (messages (run s es)))"
    by (simp add: dispatch_inv_def)
  then show ?thesis
    using tail_only_count tail_only_index by blast
qed

theorem one_streaming_tail_witness:
  "quiet ready_state \<and> sends_after_reveals ready_state orderly_sends
   \<and> length (filter isStreaming (messages (run ready_state orderly_sends))) \<le> 1"
proof -
  have s: "sends_after_reveals ready_state orderly_sends"
    by (simp add: orderly_sends_def ready_state_eq run_defs js_def no_timer_running_def)
  show ?thesis
    using quiet_ready_state s one_streaming_tail[OF quiet_ready_state s] by blast
qed

text \<open>
  \<^bold>\<open>C1.\<close> At every reachable state at most one message of the transcript should be
  streaming, and that one the last, also when a send is issued while a reveal is
  ticking. The component breaks this. Its \<open>finally\<close> block clears the busy flag as
  soon as \<open>simulateStreamingResponse\<close> has set the timer, so the send of \<open>"yo"\<close>
  is accepted while the answer \<open>"a b c"\<close> stands at \<open>"a"\<close>: the transcript then has
  five messages, two of them streaming, one of these in the middle. The next tick of
  the old timer writes \<open>"a b"\<close> into the placeholder of the second send and leaves the
  first answer at \<open>"a"\<close>.
\<close>

theorem two_streaming_messages:
  "length (messages (run ready_state overlapping_sends)) = 5
   \<and> length (filter isStreaming (messages (run ready_state overlapping_sends))) = 2
   \<and> isStreaming (messages (run ready_state overlapping_sends) ! 2)
   \<and> isStreaming (messages (run ready_state overlapping_sends) ! 4)
   \<and> msg_text (messages (run ready_state (overlapping_sends @ [Tick 0])) ! 2) = js ''a''
   \<and> msg_text (messages (run ready_state (overlapping_sends @ [Tick 0])) ! 4) = js ''a b''"
  unfolding overlapping_sends_def run_append first_reply_ticking_state
  by (simp add: ready_state_eq run_defs js_def)

subsection \<open>One send, one reply\<close>

lemma settled_success:
  "handleSendMessage_settled now (ChatResponse (Some t) srcs) s =
     simulateStreamingResponse now t srcs (s\<lparr>isConnected := True, isLoading := False\<rparr>)"
  by (simp add: handleSendMessage_settled_def simulate_shape)

lemma filter_none_streaming:
  "none_streaming ms \<Longrightarrow> filter (\<lambda>m. \<not> isStreaming m) ms = ms"
  by (simp add: none_streaming_iff)

lemma send_then_settle:
  assumes g: "\<not> (trim (inputValue s) = [] \<or> isLoading s \<or> falsy (sessionId s) \<or> \<not> isConnected s)"
    and q: "quiet s"
  shows "fire (Settle now' r) (handleSendMessage now s) =
     handleSendMessage_settled now' r
       (s\<lparr>messages := messages s @ [userMessage now (trim (inputValue s)), typingMessage now],
          inputValue := [], isLoading := True, error := None, chatRequests := []\<rparr>)"
  using q by (simp add: handleSendMessage_sends[OF g] quiet_def)

lemma send_reply_messages:
  assumes g: "\<not> (trim (inputValue s) = [] \<or> isLoading s \<or> falsy (sessionId s) \<or> \<not> isConnected s)"
    and q: "quiet s"
  shows "messages (reveal_run (length (streamIntervals s)) (ticks_needed r)
            (fire (Settle now' r) (handleSendMessage now s))) =
         messages s @ [userMessage now (trim (inputValue s)), terminal_reply now' r]
       \<and> quiet (reveal_run (length (streamIntervals s)) (ticks_needed r)
            (fire (Settle now' r) (handleSendMessage now s)))"
proof -
  have ns: "none_streaming (messages s)" and nt: "list_all (\<lambda>r. r = None) (streamIntervals s)"
    and nr: "chatRequests s = []" "resetRequests s = 0"
    using q by (simp_all add: quiet_def no_timer_running_def)
  have u: "\<not> isStreaming (userMessage now (trim (inputValue s)))"
    by (simp add: userMessage_def bot_message_def)
  have e: "\<not> isStreaming (sendErrorMessage now' x)" for x
    by (simp add: sendErrorMessage_def bot_message_def)
  have ty: "isStreaming (typingMessage now)"
    by (simp add: typingMessage_def bot_message_def)
  note f = filter_none_streaming[OF ns]
  show ?thesis
  proof (cases r)
    case (ChatResponse t srcs)
    show ?thesis
    proof (cases t)
      case None
      then show ?thesis
        unfolding send_then_settle[OF g q] using ChatResponse ns nt nr u e f
        by (simp add: ticks_needed_def terminal_reply_def failure_of_def
            reveal_run_def handleSendMessage_settled_def send_failed_def replace_tail_def
            quiet_def no_timer_running_def butlast_append)
    next
      case (Some fullText)
      have "reveal_run i (Suc (length (split_sp fullText)))
              (simulateStreamingResponse now' fullText srcs s') =
            s'\<lparr>messages := butlast (messages s')
                 @ [(streamingMessage now' srcs)\<lparr>msg_text := fullText, isStreaming := False\<rparr>],
               streamIntervals := streamIntervals s' @ [None]\<rparr>"
        if "i = length (streamIntervals s')" for i s'
        unfolding that by (rule simulate_finish)
      note fin = this[where i = "length (streamIntervals s)"]
      from Some show ?thesis
        unfolding send_then_settle[OF g q] using ChatResponse ns nt nr u
        by (simp add: settled_success ticks_needed_def terminal_reply_def fin
            quiet_def no_timer_running_def butlast_append)
    qed
  next
    case ChatNotOk
    then show ?thesis
      unfolding send_then_settle[OF g q] using ns nt nr u e f ty
      by (simp add: ticks_needed_def terminal_reply_def failure_of_def
          reveal_run_def handleSendMessage_settled_def send_failed_def
          quiet_def no_timer_running_def)
  next
    case (ChatRejected x)
    then show ?thesis
      unfolding send_then_settle[OF g q] using ns nt nr u e f ty
      by (simp add: ticks_needed_def terminal_reply_def failure_of_def
          reveal_run_def handleSendMessage_settled_def send_failed_def
          quiet_def no_timer_running_def)
  qed
qed

lemma quiet_typed_state: "quiet typed_state"
  using quiet_ready_state by (simp add: typed_state_eq quiet_def no_timer_running_def)

text \<open>
  A send that nothing interferes with ends in one reply. In a quiet state (no chat or
  delete request in flight, no reveal timer set, no message streaming) with a session, a
  live connection and an input that is not blank, send appends the user message and one
  streaming placeholder. When the settling of the request and the ticks of its reveal
  follow with no other callback in between, the transcript ends as the old one, the
  user message, and exactly one final bot message: the error message at once, or after
  the ticks of the reveal the full response, not streaming; the component is quiet
  again. At most one message is streaming after the send and after any number of ticks.
\<close>

theorem send_one_terminal_reply:
  "trim (inputValue s) \<noteq> [] \<Longrightarrow> \<not> falsy (sessionId s) \<Longrightarrow> isConnected s \<Longrightarrow>
   \<not> isLoading s \<Longrightarrow> quiet s \<Longrightarrow>
   messages (handleSendMessage now s) =
     messages s @ [userMessage now (trim (inputValue s)), typingMessage now]
   \<and> messages (reveal_run (length (streamIntervals s)) (ticks_needed r)
        (fire (Settle now' r) (handleSendMessage now s))) =
     messages s @ [userMessage now (trim (inputValue s)), terminal_reply now' r]
   \<and> sender (terminal_reply now' r) = Bot \<and> \<not> isStreaming (terminal_reply now' r)
   \<and> quiet (reveal_run (length (streamIntervals s)) (ticks_needed r)
        (fire (Settle now' r) (handleSendMessage now s)))
   \<and> length (filter isStreaming (messages (handleSendMessage now s))) \<le> 1
   \<and> length (filter isStreaming (messages (reveal_run (length (streamIntervals s)) k
        (fire (Settle now' r) (handleSendMessage now s))))) \<le> 1"
proof -
  assume a: "trim (inputValue s) \<noteq> []" "\<not> falsy (sessionId s)" "isConnected s"
    "\<not> isLoading s" and q: "quiet s"
  then have g: "\<not> (trim (inputValue s) = [] \<or> isLoading s \<or> falsy (sessionId s) \<or> \<not> isConnected s)"
    by simp
  have nt: "no_timer_running s" using q by (simp add: quiet_def)
  have 1: "messages (handleSendMessage now s) =
     messages s @ [userMessage now (trim (inputValue s)), typingMessage now]"
    by (simp add: handleSendMessage_sends[OF g])
  have i1: "dispatch_inv (fire (Send now) s)"
    using q nt by (simp add: quiet_dispatch_inv dispatch_inv_send del: fire.simps)
  then have i2: "dispatch_inv (reveal_run (length (streamIntervals s)) k
        (fire (Settle now' r) (handleSendMessage now s)))"
    using dispatch_inv_settle[of "fire (Send now) s" now' r]
    by (simp add: dispatch_inv_reveal_run)
  have 2: "sender (terminal_reply now' r) = Bot \<and> \<not> isStreaming (terminal_reply now' r)"
    by (simp add: terminal_reply_def streamingMessage_def sendErrorMessage_def bot_message_def
        split: chat_result.split option.split)
  have 3: "length (filter isStreaming (messages (handleSendMessage now s))) \<le> 1"
  proof (rule tail_only_count)
    show "none_streaming (butlast (messages (handleSendMessage now s)))"
      using i1 by (simp add: dispatch_inv_def)
  qed
  have 4: "length (filter isStreaming (messages (reveal_run (length (streamIntervals s)) k
        (fire (Settle now' r) (handleSendMessage now s))))) \<le> 1"
  proof (rule tail_only_count)
    show "none_streaming (butlast (messages (reveal_run (length (streamIntervals s)) k
        (fire (Settle now' r) (handleSendMessage now s)))))"
      using i2 by (simp add: dispatch_inv_def del: fire.simps)
  qed
  show ?thesis
    using 1 2 3 4 send_reply_messages[OF g q, of r now' now] by blast
qed

theorem send_one_terminal_reply_witness:
  "trim (inputValue typed_state) \<noteq> [] \<and> \<not> falsy (sessionId typed_state)
   \<and> isConnected typed_state \<and> \<not> isLoading typed_state \<and> quiet typed_state
   \<and> ticks_needed (ChatResponse (Some (js ''a b'')) None) = 3
   \<and> messages (reveal_run 0 3
        (fire (Settle 2500 (ChatResponse (Some (js ''a b'')) None))
           (handleSendMessage 2000 typed_state))) =
      [welcomeMessage 1000, userMessage 2000 (js ''hi''),
       (streamingMessage 2500 None)\<lparr>msg_text := js ''a b'', isStreaming := False\<rparr>]"
proof -
  have h: "trim (inputValue typed_state) \<noteq> []" "\<not> falsy (sessionId typed_state)"
    "isConnected typed_state" "\<not> isLoading typed_state"
    by (simp_all add: typed_state_eq ready_state_eq trim_hi) (simp add: js_def)
  have t: "ticks_needed (ChatResponse (Some (js ''a b'')) None) = 3"
    by (simp add: ticks_needed_def split_sp_def js_def)
  have v: "length (streamIntervals typed_state) = 0" "messages typed_state = [welcomeMessage 1000]"
    "trim (inputValue typed_state) = js ''hi''"
    by (simp_all add: typed_state_eq ready_state_eq trim_hi)
  have r: "terminal_reply 2500 (ChatResponse (Some (js ''a b'')) None) =
      (streamingMessage 2500 None)\<lparr>msg_text := js ''a b'', isStreaming := False\<rparr>"
    by (simp add: terminal_reply_def)
  note th = send_one_terminal_reply[OF h quiet_typed_state,
      where now = 2000 and now' = 2500 and r = "ChatResponse (Some (js ''a b'')) None" and k = 0]
  from th have "messages (reveal_run (length (streamIntervals typed_state))
        (ticks_needed (ChatResponse (Some (js ''a b'')) None))
        (fire (Settle 2500 (ChatResponse (Some (js ''a b'')) None))
           (handleSendMessage 2000 typed_state))) =
     messages typed_state @ [userMessage 2000 (trim (inputValue typed_state)),
         terminal_reply 2500 (ChatResponse (Some (js ''a b'')) None)]"
    by blast
  then have "messages (reveal_run 0 3
        (fire (Settle 2500 (ChatResponse (Some (js ''a b'')) None))
           (handleSendMessage 2000 typed_state))) =
      [welcomeMessage 1000, userMessage 2000 (js ''hi''),
       (streamingMessage 2500 None)\<lparr>msg_text := js ''a b'', isStreaming := False\<rparr>]"
    unfolding v t r by simp
  with h t quiet_typed_state show ?thesis by blast
qed

text \<open>
  \<^bold>\<open>C2.\<close> A send with an input that is not blank, a session, a live connection and
  no send in flight should append one user message and end in exactly one final bot
  message, with never more than one streaming placeholder. The component breaks this for
  a send that finds the reveal of the previous answer ticking, which the busy flag,
  cleared when the reveal starts, does not prevent. The preconditions hold for the send
  of \<open>"yo"\<close>, and it leaves two streaming messages. The ticks of the old timer then
  write into the new placeholder and end its streaming, and when every timer is cleared
  and nothing is in flight, the first answer is still streaming, cut off at \<open>"a"\<close>:
  the first send never gets its final bot message.
\<close>

theorem first_reply_never_terminal:
  "trim (inputValue (run ready_state first_reply_ticking)) = js ''yo''
   \<and> \<not> isLoading (run ready_state first_reply_ticking)
   \<and> chatRequests (run ready_state first_reply_ticking) = []
   \<and> sessionId (run ready_state first_reply_ticking) = Some (js ''s1'')
   \<and> isConnected (run ready_state first_reply_ticking)
   \<and> length (filter isStreaming
        (messages (handleSendMessage 2700 (run ready_state first_reply_ticking)))) = 2
   \<and> streamIntervals (run ready_state overlapping_replies) = [None, None]
   \<and> chatRequests (run ready_state overlapping_replies) = []
   \<and> length (messages (run ready_state overlapping_replies)) = 5
   \<and> isStreaming (messages (run ready_state overlapping_replies) ! 2)
   \<and> msg_text (messages (run ready_state overlapping_replies) ! 2) = js ''a''
   \<and> \<not> isStreaming (messages (run ready_state overlapping_replies) ! 4)
   \<and> msg_text (messages (run ready_state overlapping_replies) ! 4) = js ''x''"
  unfolding overlapping_replies_def overlapping_sends_def run_append first_reply_ticking_state
  by (simp add: ready_state_eq run_defs js_def)

end
